theory Spec2Isabelle
  imports Main "HOL-Library.Word"
begin

unbundle bit_operations_syntax

section \<open>Render metadata (package metadata)\<close>

subsection \<open>Renderpass clear flags\<close>

text \<open>
  \<^verbatim>\<open>type RenderpassClearFlag uint32\<close> with its four constants, values as the
  source writes them (\<^verbatim>\<open>0x0\<close>, \<^verbatim>\<open>0x1\<close>, \<^verbatim>\<open>0x2\<close>, \<^verbatim>\<open>0x3\<close>). The doc comment
  of the type says the flags "can be combined together for multiple clearing
  functions"; Go combines such flags with the bitwise \<^verbatim>\<open>|\<close>, here \<open>OR\<close>.
\<close>

type_synonym RenderpassClearFlag = "32 word"

definition RENDERPASS_CLEAR_NONE_FLAG :: RenderpassClearFlag where
  "RENDERPASS_CLEAR_NONE_FLAG = 0x0"

definition RENDERPASS_CLEAR_COLOUR_BUFFER_FLAG :: RenderpassClearFlag where
  "RENDERPASS_CLEAR_COLOUR_BUFFER_FLAG = 0x1"

definition RENDERPASS_CLEAR_DEPTH_BUFFER_FLAG :: RenderpassClearFlag where
  "RENDERPASS_CLEAR_DEPTH_BUFFER_FLAG = 0x2"

definition RENDERPASS_CLEAR_STENCIL_BUFFER_FLAG :: RenderpassClearFlag where
  "RENDERPASS_CLEAR_STENCIL_BUFFER_FLAG = 0x3"

subsection \<open>Views\<close>

text \<open>
  A \<^verbatim>\<open>float64\<close> is only ever handed on by the code below, never computed with, so
  it is kept as its 64-bit pattern. Of \<^verbatim>\<open>RenderView\<close> the fields of foreign
  types (\<^verbatim>\<open>interface{}\<close> payloads, pass pointers) and the callback fields are
  left out of the record: a callback is a Go closure, and calling one is an
  effect, recorded below as a \<open>ViewOn...\<close> entry of the call log.
\<close>

type_synonym float64 = "64 word"

datatype RenderViewKnownType =
    RENDERER_VIEW_KNOWN_TYPE_WORLD
  | RENDERER_VIEW_KNOWN_TYPE_UI
  | RENDERER_VIEW_KNOWN_TYPE_SKYBOX

record RenderView =
  ID :: "16 word"
  Name :: string
  Width :: "16 word"
  Height :: "16 word"
  RenderViewType :: RenderViewKnownType
  RenderpassCount :: "8 word"
  CustomShaderName :: string

section \<open>The renderer (package renderer)\<close>

subsection \<open>Values\<close>

text \<open>A Go \<^verbatim>\<open>error\<close> value, identified by what its \<^verbatim>\<open>Error()\<close> method returns;
  the \<^verbatim>\<open>nil\<close> error is \<open>None\<close> of \<open>error option\<close>.\<close>

datatype error = Error (message: string)

text \<open>The only run-time panic the renderer code itself can raise.\<close>

datatype panic = NilPointerDereference

text \<open>What a call of a renderer function yields: a panic, or the returned
  \<^verbatim>\<open>error\<close> (possibly \<^verbatim>\<open>nil\<close>).\<close>

type_synonym result = "panic + error option"

text \<open>
  Every call that leaves the renderer package, in the order it happens: the
  constructor \<^verbatim>\<open>vulkan.New\<close>, the five methods of the \<^verbatim>\<open>RendererBackend\<close>
  interface, \<^verbatim>\<open>core.LogError\<close>, and the callbacks of a \<^verbatim>\<open>RenderView\<close>
  (identified by the view's \<open>ID\<close>).
\<close>

datatype 'p effect =
    VulkanNew 'p
  | BackendInitialize string
  | BackendShutdow
  | BackendResized "16 word" "16 word"
  | BackendBeginFrame float64
  | BackendEndFrame float64
  | CoreLogError string
  | ViewOnRender "16 word"
  | ViewOnResize "16 word" "32 word" "32 word"
  | ViewOnDestroy "16 word"

text \<open>
  The package \<^verbatim>\<open>engine/renderer/vulkan\<close> is not among the sources, so it is a
  parameter: its constructor \<^verbatim>\<open>New\<close> and the five \<^verbatim>\<open>RendererBackend\<close> methods
  of the value \<^verbatim>\<open>New\<close> returns, each a function on the backend's own state
  \<open>'b\<close> that returns the \<^verbatim>\<open>error\<close> and the state afterwards. \<open>'p\<close> is the
  \<^verbatim>\<open>*platform.Platform\<close> argument, which the renderer only passes on.
\<close>

record ('b, 'p) vulkan =
  vulkan_New :: "'p \<Rightarrow> 'b"
  backend_Initialize :: "string \<Rightarrow> 'b \<Rightarrow> error option \<times> 'b"
  backend_Shutdow :: "'b \<Rightarrow> error option \<times> 'b"
  backend_Resized :: "16 word \<Rightarrow> 16 word \<Rightarrow> 'b \<Rightarrow> error option \<times> 'b"
  backend_BeginFrame :: "float64 \<Rightarrow> 'b \<Rightarrow> error option \<times> 'b"
  backend_EndFrame :: "float64 \<Rightarrow> 'b \<Rightarrow> error option \<times> 'b"

text \<open>\<^verbatim>\<open>type Renderer struct { backend RendererBackend }\<close>\<close>

record 'b Renderer =
  backend :: 'b

text \<open>\<^verbatim>\<open>renderer.RenderPacket\<close>, the parameter type of \<^verbatim>\<open>DrawFrame\<close>: one field.\<close>

record RenderPacket =
  DeltaTime :: float64

text \<open>
  The package-level state: \<^verbatim>\<open>var initRenderer sync.Once\<close> (has \<^verbatim>\<open>Do\<close> run its
  function yet), \<^verbatim>\<open>var renderer *Renderer\<close> (\<open>None\<close> is the \<^verbatim>\<open>nil\<close> pointer),
  and the log of the calls made so far, oldest first.
\<close>

record ('b, 'p) world =
  initRenderer :: bool
  renderer :: "'b Renderer option"
  calls :: "'p effect list"

text \<open>The state of a process that has just started: Go's zero values.\<close>

definition world0 :: "('b, 'p) world" where
  "world0 = \<lparr>initRenderer = False, renderer = None, calls = []\<rparr>"

subsection \<open>Functions\<close>

text \<open>
  The expression \<^verbatim>\<open>renderer.backend.m(...)\<close>: dereferencing the \<^verbatim>\<open>nil\<close>
  \<^verbatim>\<open>renderer\<close> panics; otherwise the method \<open>m\<close> runs on the backend, the call
  \<open>ev\<close> is logged and the method's error is the value.
\<close>

definition renderer_backend ::
  "('b \<Rightarrow> error option \<times> 'b) \<Rightarrow> 'p effect \<Rightarrow> ('b, 'p) world \<Rightarrow> result \<times> ('b, 'p) world" where
  "renderer_backend m ev w =
     (case renderer w of
        None \<Rightarrow> (Inl NilPointerDereference, w)
      | Some r \<Rightarrow>
          (case m (backend r) of
             (err, b') \<Rightarrow>
               (Inr err, w\<lparr>renderer := Some (r\<lparr>backend := b'\<rparr>), calls := calls w @ [ev]\<rparr>)))"

text \<open>
  \<^verbatim>\<open>Initialize\<close>: \<^verbatim>\<open>initRenderer.Do\<close> runs its function only if it has not run
  before; the function builds the \<^verbatim>\<open>Renderer\<close> around \<^verbatim>\<open>vulkan.New(platform)\<close>.
  Then, on every call, \<^verbatim>\<open>return renderer.backend.Initialize(appName)\<close>.
\<close>

definition Initialize ::
  "('b, 'p) vulkan \<Rightarrow> string \<Rightarrow> 'p \<Rightarrow> ('b, 'p) world \<Rightarrow> result \<times> ('b, 'p) world" where
  "Initialize V appName platform w =
     (let w1 = (if initRenderer w then w
                else w\<lparr>initRenderer := True,
                       renderer := Some \<lparr>backend = vulkan_New V platform\<rparr>,
                       calls := calls w @ [VulkanNew platform]\<rparr>)
      in renderer_backend (backend_Initialize V appName) (BackendInitialize appName) w1)"

definition Shutdown :: "('b, 'p) vulkan \<Rightarrow> ('b, 'p) world \<Rightarrow> result \<times> ('b, 'p) world" where
  "Shutdown V w = renderer_backend (backend_Shutdow V) BackendShutdow w"

definition BeginFrame ::
  "('b, 'p) vulkan \<Rightarrow> float64 \<Rightarrow> ('b, 'p) world \<Rightarrow> result \<times> ('b, 'p) world" where
  "BeginFrame V deltaTime w =
     renderer_backend (backend_BeginFrame V deltaTime) (BackendBeginFrame deltaTime) w"

definition EndFrame ::
  "('b, 'p) vulkan \<Rightarrow> float64 \<Rightarrow> ('b, 'p) world \<Rightarrow> result \<times> ('b, 'p) world" where
  "EndFrame V deltaTime w =
     renderer_backend (backend_EndFrame V deltaTime) (BackendEndFrame deltaTime) w"

definition OnResize ::
  "('b, 'p) vulkan \<Rightarrow> 16 word \<Rightarrow> 16 word \<Rightarrow> ('b, 'p) world \<Rightarrow> result \<times> ('b, 'p) world" where
  "OnResize V width height w =
     renderer_backend (backend_Resized V width height) (BackendResized width height) w"

text \<open>\<^verbatim>\<open>core.LogError(msg)\<close>: an entry of the call log.\<close>

definition LogError :: "string \<Rightarrow> ('b, 'p) world \<Rightarrow> ('b, 'p) world" where
  "LogError msg w = w\<lparr>calls := calls w @ [CoreLogError msg]\<rparr>"

text \<open>
  \<^verbatim>\<open>DrawFrame(renderPacket *RenderPacket)\<close>. The packet is a pointer, so
  \<^verbatim>\<open>renderPacket.DeltaTime\<close> panics on \<^verbatim>\<open>nil\<close>. A panic inside \<^verbatim>\<open>BeginFrame\<close>
  or \<^verbatim>\<open>EndFrame\<close> goes up unchanged.
\<close>

definition DrawFrame ::
  "('b, 'p) vulkan \<Rightarrow> RenderPacket option \<Rightarrow> ('b, 'p) world \<Rightarrow> result \<times> ('b, 'p) world" where
  "DrawFrame V renderPacket w =
     (case renderPacket of
        None \<Rightarrow> (Inl NilPointerDereference, w)
      | Some p \<Rightarrow>
          (case BeginFrame V (RenderPacket.DeltaTime p) w of
             (Inl pn, w1) \<Rightarrow> (Inl pn, w1)
           | (Inr (Some err), w1) \<Rightarrow> (Inr (Some err), LogError (message err) w1)
           | (Inr None, w1) \<Rightarrow>
               (case EndFrame V (RenderPacket.DeltaTime p) w1 of
                  (Inl pn, w2) \<Rightarrow> (Inl pn, w2)
                | (Inr (Some err), w2) \<Rightarrow>
                    (Inr (Some err),
                     LogError ''RendererEndFrame failed. Application shutting down...'' w2)
                | (Inr None, w2) \<Rightarrow> (Inr None, w2))))"

subsection \<open>Runs\<close>

text \<open>
  A caller of the package: one constructor per exported function. A run makes
  the calls in order on the package state and collects what each returned; an
  unrecovered panic ends the process, so a run stops at the first panic.
\<close>

datatype 'p call =
    CallInitialize string 'p
  | CallShutdown
  | CallBeginFrame float64
  | CallEndFrame float64
  | CallOnResize "16 word" "16 word"
  | CallDrawFrame "RenderPacket option"

fun step :: "('b, 'p) vulkan \<Rightarrow> 'p call \<Rightarrow> ('b, 'p) world \<Rightarrow> result \<times> ('b, 'p) world" where
  "step V (CallInitialize appName platform) w = Initialize V appName platform w"
| "step V CallShutdown w = Shutdown V w"
| "step V (CallBeginFrame deltaTime) w = BeginFrame V deltaTime w"
| "step V (CallEndFrame deltaTime) w = EndFrame V deltaTime w"
| "step V (CallOnResize width height) w = OnResize V width height w"
| "step V (CallDrawFrame renderPacket) w = DrawFrame V renderPacket w"

fun run ::
  "('b, 'p) vulkan \<Rightarrow> 'p call list \<Rightarrow> ('b, 'p) world \<Rightarrow> result list \<times> ('b, 'p) world" where
  "run V [] w = ([], w)"
| "run V (c # cs) w =
     (case step V c w of
        (Inl pn, w1) \<Rightarrow> ([Inl pn], w1)
      | (Inr err, w1) \<Rightarrow> (case run V cs w1 of (rs, w2) \<Rightarrow> (Inr err # rs, w2)))"

text \<open>A call with its platform argument blanked out: two calls agree on
  everything but the platform exactly when their images are equal.\<close>

definition erase_platform :: "'p call \<Rightarrow> unit call" where
  "erase_platform c = map_call (\<lambda>platform. ()) c"

text \<open>The platforms that \<^verbatim>\<open>vulkan.New\<close> was called with, oldest first: one entry
  for every backend ever constructed.\<close>

fun constructions :: "'p effect list \<Rightarrow> 'p list" where
  "constructions [] = []"
| "constructions (VulkanNew platform # es) = platform # constructions es"
| "constructions (e # es) = constructions es"

subsection \<open>Concrete backends, states and views\<close>

text \<open>
  A backend to run the functions on: its state counts the method calls it has
  served, starting from the platform number it was built from;
  \<^verbatim>\<open>Initialize\<close>, \<^verbatim>\<open>Shutdow\<close>, \<^verbatim>\<open>BeginFrame\<close> and \<^verbatim>\<open>EndFrame\<close> return the
  given errors and \<^verbatim>\<open>Resized\<close> succeeds.
\<close>

definition stub_backend ::
  "error option \<Rightarrow> error option \<Rightarrow> error option \<Rightarrow> error option \<Rightarrow> (nat, nat) vulkan" where
  "stub_backend ei es eb ee =
     \<lparr>vulkan_New = (\<lambda>platform. platform),
      backend_Initialize = (\<lambda>appName n. (ei, Suc n)),
      backend_Shutdow = (\<lambda>n. (es, Suc n)),
      backend_Resized = (\<lambda>width height n. (None, Suc n)),
      backend_BeginFrame = (\<lambda>deltaTime n. (eb, Suc n)),
      backend_EndFrame = (\<lambda>deltaTime n. (ee, Suc n))\<rparr>"

text \<open>The state after one successful \<^verbatim>\<open>Initialize("app", platform 7)\<close> on a
  fresh process.\<close>

definition ready :: "(nat, nat) world" where
  "ready = \<lparr>initRenderer = True, renderer = Some \<lparr>backend = 8\<rparr>,
            calls = [VulkanNew 7, BackendInitialize ''app'']\<rparr>"

definition skybox_view :: RenderView where
  "skybox_view = \<lparr>ID = 1, Name = ''skybox'', Width = 1280, Height = 720,
     RenderViewType = RENDERER_VIEW_KNOWN_TYPE_SKYBOX, RenderpassCount = 1,
     CustomShaderName = []\<rparr>"

section \<open>Basic facts\<close>

lemma renderer_backend_None:
  "renderer w = None \<Longrightarrow> renderer_backend m ev w = (Inl NilPointerDereference, w)"
  by (simp add: renderer_backend_def)

lemma renderer_backend_initRenderer:
  "initRenderer (snd (renderer_backend m ev w)) = initRenderer w"
  by (simp add: renderer_backend_def split: option.splits prod.splits)

lemma Initialize_initRenderer: "initRenderer (snd (Initialize V appName platform w))"
  by (simp add: Initialize_def renderer_backend_initRenderer Let_def)

lemma Initialize_ready:
  "Initialize (stub_backend None es eb ee) ''app'' 7 world0 = (Inr None, ready)"
  by (simp add: Initialize_def renderer_backend_def stub_backend_def world0_def ready_def)

lemma step_initRenderer: "initRenderer w \<Longrightarrow> initRenderer (snd (step V c w))"
  by (cases c)
     (auto simp: Initialize_def Shutdown_def BeginFrame_def EndFrame_def OnResize_def
        DrawFrame_def LogError_def renderer_backend_def
        split: option.splits prod.splits sum.splits)

lemma step_erase_platform:
  "initRenderer w \<Longrightarrow> erase_platform c = erase_platform c' \<Longrightarrow> step V c w = step V c' w"
  by (cases c; cases c') (simp_all add: erase_platform_def Initialize_def)

lemma run_erase_platform:
  "initRenderer w \<Longrightarrow> map erase_platform cs = map erase_platform cs' \<Longrightarrow>
   run V cs w = run V cs' w"
proof (induction cs arbitrary: cs' w)
  case Nil
  then show ?case by simp
next
  case (Cons c cs)
  then obtain c' ds where cs': "cs' = c' # ds"
    and c: "erase_platform c = erase_platform c'"
    and ds: "map erase_platform cs = map erase_platform ds"
    by (cases cs') auto
  have st: "step V c w = step V c' w"
    using Cons.prems(1) c by (rule step_erase_platform)
  obtain res w1 where sw: "step V c' w = (res, w1)"
    by (cases "step V c' w")
  have "initRenderer w1"
    using step_initRenderer [OF Cons.prems(1), of V c'] sw by simp
  then have "run V cs w1 = run V ds w1"
    using ds by (rule Cons.IH)
  then show ?case
    using st sw cs' by (simp split: sum.splits)
qed

lemma constructions_append:
  "constructions (xs @ ys) = constructions xs @ constructions ys"
  by (induction xs rule: constructions.induct) simp_all

lemma renderer_backend_constructions:
  "constructions [ev] = [] \<Longrightarrow>
   constructions (calls (snd (renderer_backend m ev w))) = constructions (calls w)"
  by (simp add: renderer_backend_def constructions_append split: option.splits prod.splits)

lemma DrawFrame_constructions:
  "constructions (calls (snd (DrawFrame V renderPacket w))) = constructions (calls w)"
proof (cases renderPacket)
  case None
  then show ?thesis by (simp add: DrawFrame_def)
next
  case (Some p)
  obtain res1 w1 where b: "BeginFrame V (RenderPacket.DeltaTime p) w = (res1, w1)"
    by (cases "BeginFrame V (RenderPacket.DeltaTime p) w")
  obtain res2 w2 where e: "EndFrame V (RenderPacket.DeltaTime p) w1 = (res2, w2)"
    by (cases "EndFrame V (RenderPacket.DeltaTime p) w1")
  have c1: "constructions (calls w1) = constructions (calls w)"
    using renderer_backend_constructions
      [of "BackendBeginFrame (RenderPacket.DeltaTime p)"
          "backend_BeginFrame V (RenderPacket.DeltaTime p)" w] b
    by (simp add: BeginFrame_def)
  have c2: "constructions (calls w2) = constructions (calls w1)"
    using renderer_backend_constructions
      [of "BackendEndFrame (RenderPacket.DeltaTime p)"
          "backend_EndFrame V (RenderPacket.DeltaTime p)" w1] e
    by (simp add: EndFrame_def)
  show ?thesis
    using Some b e c1 c2
    by (simp add: DrawFrame_def LogError_def constructions_append
        split: sum.splits option.splits)
qed

lemma step_constructions:
  "initRenderer w \<Longrightarrow> constructions (calls (snd (step V c w))) = constructions (calls w)"
  by (cases c)
     (simp_all add: Initialize_def Shutdown_def BeginFrame_def EndFrame_def OnResize_def
        renderer_backend_constructions DrawFrame_constructions)

lemma run_constructions:
  "initRenderer w \<Longrightarrow> constructions (calls (snd (run V cs w))) = constructions (calls w)"
proof (induction cs arbitrary: w)
  case Nil
  then show ?case by simp
next
  case (Cons c cs)
  obtain res w1 where sw: "step V c w = (res, w1)"
    by (cases "step V c w")
  have i1: "initRenderer w1"
    using step_initRenderer [OF Cons.prems, of V c] sw by simp
  have c1: "constructions (calls w1) = constructions (calls w)"
    using step_constructions [OF Cons.prems, of V c] sw by simp
  obtain rs w2 where rw: "run V cs w1 = (rs, w2)"
    by (cases "run V cs w1")
  have c2: "constructions (calls w2) = constructions (calls w1)"
    using Cons.IH [OF i1] rw by simp
  show ?case
    using sw rw c1 c2 by (simp split: sum.splits)
qed

lemma Initialize_first_constructions:
  "\<not> initRenderer w \<Longrightarrow>
   constructions (calls (snd (Initialize V appName platform w)))
     = constructions (calls w) @ [platform]"
  by (simp add: Initialize_def renderer_backend_constructions constructions_append)

lemma Initialize_first_renderer:
  "\<not> initRenderer w \<Longrightarrow>
   renderer (snd (Initialize V appName platform w))
     = Some \<lparr>backend = snd (backend_Initialize V appName (vulkan_New V platform))\<rparr>"
  by (simp add: Initialize_def renderer_backend_def split: prod.splits)

lemma renderer_backend_keeps_renderer:
  "renderer w \<noteq> None \<Longrightarrow> renderer (snd (renderer_backend m ev w)) \<noteq> None"
  by (auto simp: renderer_backend_def split: option.splits prod.splits)

lemma DrawFrame_keeps_renderer:
  assumes w: "renderer w \<noteq> None"
  shows "renderer (snd (DrawFrame V renderPacket w)) \<noteq> None"
proof (cases renderPacket)
  case None
  then show ?thesis using w by (simp add: DrawFrame_def)
next
  case (Some p)
  obtain res1 w1 where b: "BeginFrame V (RenderPacket.DeltaTime p) w = (res1, w1)"
    by (cases "BeginFrame V (RenderPacket.DeltaTime p) w")
  obtain res2 w2 where e: "EndFrame V (RenderPacket.DeltaTime p) w1 = (res2, w2)"
    by (cases "EndFrame V (RenderPacket.DeltaTime p) w1")
  have r1: "renderer w1 \<noteq> None"
    using renderer_backend_keeps_renderer
      [OF w, of "backend_BeginFrame V (RenderPacket.DeltaTime p)"
          "BackendBeginFrame (RenderPacket.DeltaTime p)"] b
    by (simp add: BeginFrame_def)
  have r2: "renderer w2 \<noteq> None"
    using renderer_backend_keeps_renderer
      [OF r1, of "backend_EndFrame V (RenderPacket.DeltaTime p)"
          "BackendEndFrame (RenderPacket.DeltaTime p)"] e
    by (simp add: EndFrame_def)
  show ?thesis
    using Some b e r1 r2
    by (simp add: DrawFrame_def LogError_def split: sum.splits option.splits)
qed

lemma step_keeps_renderer:
  assumes w: "renderer w \<noteq> None"
  shows "renderer (snd (step V c w)) \<noteq> None"
proof (cases c)
  case (CallInitialize appName platform)
  show ?thesis
  proof (cases "initRenderer w")
    case True
    then show ?thesis
      using CallInitialize renderer_backend_keeps_renderer [OF w]
      by (simp add: Initialize_def)
  next
    case False
    then show ?thesis
      using CallInitialize Initialize_first_renderer [OF False, of V appName platform]
      by simp
  qed
next
  case (CallDrawFrame renderPacket)
  then show ?thesis
    using w by (simp add: DrawFrame_keeps_renderer)
qed (simp_all add: w Shutdown_def BeginFrame_def EndFrame_def OnResize_def
       renderer_backend_keeps_renderer)

lemma run_keeps_renderer:
  "renderer w \<noteq> None \<Longrightarrow> renderer (snd (run V cs w)) \<noteq> None"
proof (induction cs arbitrary: w)
  case Nil
  then show ?case by simp
next
  case (Cons c cs)
  obtain res w1 where sw: "step V c w = (res, w1)"
    by (cases "step V c w")
  have r1: "renderer w1 \<noteq> None"
    using step_keeps_renderer [OF Cons.prems, of V c] sw by simp
  obtain rs w2 where rw: "run V cs w1 = (rs, w2)"
    by (cases "run V cs w1")
  have r2: "renderer w2 \<noteq> None"
    using Cons.IH [OF r1] rw by simp
  show ?case
    using sw rw r1 r2 by (simp split: sum.splits)
qed

section \<open>Drawing a frame\<close>




text \<open>
  C3. For every non-nil packet, on an initialized renderer: if the backend's
  \<^verbatim>\<open>BeginFrame\<close> returns an error, \<^verbatim>\<open>DrawFrame\<close> returns that error and the only
  calls it made are that \<^verbatim>\<open>BeginFrame\<close> and the logging of the error's text, so
  \<^verbatim>\<open>EndFrame\<close> is never called; if \<^verbatim>\<open>BeginFrame\<close> succeeds and the backend's
  \<^verbatim>\<open>EndFrame\<close> returns an error, \<^verbatim>\<open>DrawFrame\<close> returns that error, and after
  \<^verbatim>\<open>EndFrame\<close> it only logs a message.
\<close>

theorem DrawFrame_surfaces_backend_error:
  assumes "renderer w = Some r"
  shows "(backend_BeginFrame V (RenderPacket.DeltaTime p) (backend r) = (Some err, b1) \<longrightarrow>
            DrawFrame V (Some p) w =
              (Inr (Some err),
               w\<lparr>renderer := Some (r\<lparr>backend := b1\<rparr>),
                 calls := calls w @ [BackendBeginFrame (RenderPacket.DeltaTime p),
                                     CoreLogError (message err)]\<rparr>)) \<and>
         (backend_BeginFrame V (RenderPacket.DeltaTime p) (backend r) = (None, b1) \<and>
          backend_EndFrame V (RenderPacket.DeltaTime p) b1 = (Some err, b2) \<longrightarrow>
            DrawFrame V (Some p) w =
              (Inr (Some err),
               w\<lparr>renderer := Some (r\<lparr>backend := b2\<rparr>),
                 calls := calls w @
                   [BackendBeginFrame (RenderPacket.DeltaTime p),
                    BackendEndFrame (RenderPacket.DeltaTime p),
                    CoreLogError ''RendererEndFrame failed. Application shutting down...'']\<rparr>))"
  using assms
  by (simp add: DrawFrame_def BeginFrame_def EndFrame_def renderer_backend_def LogError_def)

theorem DrawFrame_surfaces_backend_error_witness:
  "DrawFrame (stub_backend None None (Some (Error ''device lost'')) None)
       (Some \<lparr>RenderPacket.DeltaTime = 16\<rparr>) ready =
     (Inr (Some (Error ''device lost'')),
      \<lparr>initRenderer = True, renderer = Some \<lparr>backend = 9\<rparr>,
       calls = [VulkanNew 7, BackendInitialize ''app'', BackendBeginFrame 16,
                CoreLogError ''device lost'']\<rparr>) \<and>
   DrawFrame (stub_backend None None None (Some (Error ''present failed'')))
       (Some \<lparr>RenderPacket.DeltaTime = 16\<rparr>) ready =
     (Inr (Some (Error ''present failed'')),
      \<lparr>initRenderer = True, renderer = Some \<lparr>backend = 10\<rparr>,
       calls = [VulkanNew 7, BackendInitialize ''app'', BackendBeginFrame 16, BackendEndFrame 16,
                CoreLogError ''RendererEndFrame failed. Application shutting down...'']\<rparr>)"
proof -
  have r: "renderer ready = Some \<lparr>backend = 8\<rparr>"
    by (simp add: ready_def)
  show ?thesis
    using DrawFrame_surfaces_backend_error
            [OF r, where V = "stub_backend None None (Some (Error ''device lost'')) None"
               and p = "\<lparr>RenderPacket.DeltaTime = 16\<rparr>" and err = "Error ''device lost''"
               and ?b1.0 = 9]
          DrawFrame_surfaces_backend_error
            [OF r, where V = "stub_backend None None None (Some (Error ''present failed''))"
               and p = "\<lparr>RenderPacket.DeltaTime = 16\<rparr>" and err = "Error ''present failed''"
               and ?b1.0 = 9 and ?b2.0 = 10]
    by (simp add: ready_def stub_backend_def)
qed

section \<open>The frame lifecycle\<close>

text \<open>
  C4, as stated: a second \<^verbatim>\<open>BeginFrame\<close> without an \<^verbatim>\<open>EndFrame\<close> in between
  fails with a lifecycle error, whatever the backend does. The renderer keeps no
  frame state: with a backend that accepts every call, the second \<^verbatim>\<open>BeginFrame\<close>
  in a row returns \<^verbatim>\<open>nil\<close> and reaches the backend a second time.
\<close>

theorem BeginFrame_twice_succeeds:
  "BeginFrame (stub_backend None None None None) 16
     (snd (BeginFrame (stub_backend None None None None) 16 ready)) =
   (Inr None,
    \<lparr>initRenderer = True, renderer = Some \<lparr>backend = 10\<rparr>,
     calls = [VulkanNew 7, BackendInitialize ''app'', BackendBeginFrame 16,
              BackendBeginFrame 16]\<rparr>)"
  by (simp add: BeginFrame_def renderer_backend_def stub_backend_def ready_def)

text \<open>
  C4, amended: on an initialized renderer every \<^verbatim>\<open>BeginFrame\<close> is forwarded to the
  backend's \<^verbatim>\<open>BeginFrame\<close> and returns exactly what the backend returns, also
  when it is the second one without an \<^verbatim>\<open>EndFrame\<close> in between: the renderer
  itself rejects nothing, and a nested frame fails exactly when the backend
  rejects it.
\<close>

theorem BeginFrame_forwards_to_backend:
  assumes "renderer w = Some r"
    and "backend_BeginFrame V dt1 (backend r) = (e1, b1)"
    and "backend_BeginFrame V dt2 b1 = (e2, b2)"
  shows "BeginFrame V dt1 w =
           (Inr e1, w\<lparr>renderer := Some (r\<lparr>backend := b1\<rparr>),
                     calls := calls w @ [BackendBeginFrame dt1]\<rparr>) \<and>
         BeginFrame V dt2 (snd (BeginFrame V dt1 w)) =
           (Inr e2, w\<lparr>renderer := Some (r\<lparr>backend := b2\<rparr>),
                     calls := calls w @ [BackendBeginFrame dt1, BackendBeginFrame dt2]\<rparr>)"
  using assms
  by (simp add: BeginFrame_def renderer_backend_def)

theorem BeginFrame_forwards_to_backend_witness:
  "BeginFrame (stub_backend None None (Some (Error ''frame in flight'')) None) 16 ready =
     (Inr (Some (Error ''frame in flight'')),
      \<lparr>initRenderer = True, renderer = Some \<lparr>backend = 9\<rparr>,
       calls = [VulkanNew 7, BackendInitialize ''app'', BackendBeginFrame 16]\<rparr>) \<and>
   BeginFrame (stub_backend None None (Some (Error ''frame in flight'')) None) 17
     (snd (BeginFrame (stub_backend None None (Some (Error ''frame in flight'')) None) 16 ready)) =
     (Inr (Some (Error ''frame in flight'')),
      \<lparr>initRenderer = True, renderer = Some \<lparr>backend = 10\<rparr>,
       calls = [VulkanNew 7, BackendInitialize ''app'', BackendBeginFrame 16,
                BackendBeginFrame 17]\<rparr>)"
proof -
  have r: "renderer ready = Some \<lparr>backend = 8\<rparr>"
    by (simp add: ready_def)
  have b1: "backend_BeginFrame (stub_backend None None (Some (Error ''frame in flight'')) None) 16
              (backend \<lparr>backend = 8::nat\<rparr>) = (Some (Error ''frame in flight''), 9)"
    by (simp add: stub_backend_def)
  have b2: "backend_BeginFrame (stub_backend None None (Some (Error ''frame in flight'')) None) 17 9
              = (Some (Error ''frame in flight''), 10)"
    by (simp add: stub_backend_def)
  show ?thesis
    using BeginFrame_forwards_to_backend [OF r b1 b2, THEN conjunct1]
          BeginFrame_forwards_to_backend [OF r b1 b2, THEN conjunct2]
    by (simp add: ready_def)
qed

section \<open>Initialization\<close>

text \<open>
  C5, as stated: after the first completed \<^verbatim>\<open>Initialize\<close> no second backend
  initialization is performed, and a backend failure on the first call leaves
  the renderer uninitialized. With a backend whose \<^verbatim>\<open>Initialize\<close> fails, the
  first call returns the error but leaves the \<^verbatim>\<open>renderer\<close> singleton set, and
  the second call runs the backend's \<^verbatim>\<open>Initialize\<close> a second time.
\<close>

theorem Initialize_twice_initializes_backend_twice:
  "Initialize (stub_backend (Some (Error ''no device'')) None None None) ''app'' 7 world0 =
     (Inr (Some (Error ''no device'')),
      \<lparr>initRenderer = True, renderer = Some \<lparr>backend = 8\<rparr>,
       calls = [VulkanNew 7, BackendInitialize ''app'']\<rparr>) \<and>
   Initialize (stub_backend (Some (Error ''no device'')) None None None) ''app'' 7
     (snd (Initialize (stub_backend (Some (Error ''no device'')) None None None) ''app'' 7 world0)) =
     (Inr (Some (Error ''no device'')),
      \<lparr>initRenderer = True, renderer = Some \<lparr>backend = 9\<rparr>,
       calls = [VulkanNew 7, BackendInitialize ''app'', BackendInitialize ''app'']\<rparr>)"
  by (simp add: Initialize_def renderer_backend_def stub_backend_def world0_def)

text \<open>
  C5, amended: a call of \<^verbatim>\<open>Initialize\<close> after the first constructs nothing
  (\<^verbatim>\<open>vulkan.New\<close> is not called and the backend of the first call is kept), but
  it is delegated to that backend's \<^verbatim>\<open>Initialize\<close> once more and returns what
  the backend returns. If the backend's \<^verbatim>\<open>Initialize\<close> fails on the first call,
  the error is returned after that one attempt, with no retry, and the
  \<^verbatim>\<open>renderer\<close> singleton stays set to the renderer just built.
\<close>

theorem Initialize_constructs_once:
  "(initRenderer w \<and> renderer w = Some r \<and>
    backend_Initialize V appName (backend r) = (e, b') \<longrightarrow>
      Initialize V appName platform w =
        (Inr e, w\<lparr>renderer := Some (r\<lparr>backend := b'\<rparr>),
                  calls := calls w @ [BackendInitialize appName]\<rparr>)) \<and>
   (\<not> initRenderer w \<and>
    backend_Initialize V appName (vulkan_New V platform) = (Some err, b'') \<longrightarrow>
      Initialize V appName platform w =
        (Inr (Some err),
         w\<lparr>initRenderer := True, renderer := Some \<lparr>backend = b''\<rparr>,
           calls := calls w @ [VulkanNew platform, BackendInitialize appName]\<rparr>))"
  by (simp add: Initialize_def renderer_backend_def)

theorem Initialize_constructs_once_witness:
  "Initialize (stub_backend None None None None) ''again'' 3 ready =
     (Inr None,
      \<lparr>initRenderer = True, renderer = Some \<lparr>backend = 9\<rparr>,
       calls = [VulkanNew 7, BackendInitialize ''app'', BackendInitialize ''again'']\<rparr>) \<and>
   Initialize (stub_backend (Some (Error ''no surface'')) None None None) ''app'' 4 world0 =
     (Inr (Some (Error ''no surface'')),
      \<lparr>initRenderer = True, renderer = Some \<lparr>backend = 5\<rparr>,
       calls = [VulkanNew 4, BackendInitialize ''app'']\<rparr>)"
  using Initialize_constructs_once
          [where w = ready and r = "\<lparr>backend = 8\<rparr>"
             and V = "stub_backend None None None None"
             and appName = "''again''" and e = None and b' = 9 and platform = 3]
        Initialize_constructs_once
          [where w = world0 and V = "stub_backend (Some (Error ''no surface'')) None None None"
             and appName = "''app''" and err = "Error ''no surface''" and b'' = 5
             and platform = 4]
  by (simp add: ready_def world0_def stub_backend_def)

text \<open>
  C10. In every run that starts with an \<^verbatim>\<open>Initialize\<close>, the platform arguments
  of the later calls have no effect: two runs that differ only in those
  arguments return the same results and end in the same state, call log
  included. If that first \<^verbatim>\<open>Initialize\<close> is the first of the process, the run
  constructs exactly one backend, from the first call's platform; the
  \<^verbatim>\<open>renderer\<close> singleton holds that backend after the first call and is never
  \<^verbatim>\<open>nil\<close> again. And every later \<^verbatim>\<open>Initialize\<close> keeps the renderer it finds: it
  only runs the \<^verbatim>\<open>Initialize\<close> method of the backend already there, returns
  that method's error and leaves everything else as it was, whatever its
  platform argument.
\<close>

theorem later_platform_has_no_effect:
  "(map erase_platform cs = map erase_platform cs' \<longrightarrow>
      run V (CallInitialize appName platform # cs) w =
      run V (CallInitialize appName platform # cs') w) \<and>
   (\<not> initRenderer w \<longrightarrow>
      constructions (calls (snd (run V (CallInitialize appName platform # cs) w)))
        = constructions (calls w) @ [platform] \<and>
      renderer (snd (Initialize V appName platform w))
        = Some \<lparr>backend = snd (backend_Initialize V appName (vulkan_New V platform))\<rparr> \<and>
      renderer (snd (run V (CallInitialize appName platform # cs) w)) \<noteq> None) \<and>
   (initRenderer w' \<and> renderer w' = Some r \<and>
    backend_Initialize V appName' (backend r) = (e, b') \<longrightarrow>
      Initialize V appName' platform' w' =
        (Inr e, w'\<lparr>renderer := Some (r\<lparr>backend := b'\<rparr>),
                   calls := calls w' @ [BackendInitialize appName']\<rparr>))"
proof -
  obtain res w1 where i: "Initialize V appName platform w = (res, w1)"
    by (cases "Initialize V appName platform w")
  obtain rs w2 where rw: "run V cs w1 = (rs, w2)"
    by (cases "run V cs w1")
  have i1: "initRenderer w1"
    using Initialize_initRenderer [of V appName platform w] i by simp
  have same: "run V cs w1 = run V cs' w1"
    if "map erase_platform cs = map erase_platform cs'"
    using i1 that by (rule run_erase_platform)
  have run_eq: "run V (CallInitialize appName platform # cs) w =
                run V (CallInitialize appName platform # cs') w"
    if "map erase_platform cs = map erase_platform cs'"
    using i same [OF that] by (simp split: sum.splits)
  have final: "snd (run V (CallInitialize appName platform # cs) w) = w1 \<or>
               snd (run V (CallInitialize appName platform # cs) w) = w2"
    using i rw by (cases res) simp_all
  have first: "constructions (calls w1) = constructions (calls w) @ [platform]"
    if "\<not> initRenderer w"
    using Initialize_first_constructions [OF that, of V appName platform] i by simp
  have rest: "constructions (calls w2) = constructions (calls w1)"
    using run_constructions [OF i1, of V cs] rw by simp
  have once: "constructions (calls (snd (run V (CallInitialize appName platform # cs) w)))
                = constructions (calls w) @ [platform]"
    if "\<not> initRenderer w"
    using final first [OF that] rest by auto
  have built: "renderer (snd (Initialize V appName platform w))
                 = Some \<lparr>backend = snd (backend_Initialize V appName (vulkan_New V platform))\<rparr>"
    if "\<not> initRenderer w"
    using that by (rule Initialize_first_renderer)
  have r1: "renderer w1 \<noteq> None" if "\<not> initRenderer w"
    using built [OF that] i by simp
  have r2: "renderer w2 \<noteq> None" if "\<not> initRenderer w"
    using run_keeps_renderer [OF r1 [OF that], of V cs] rw by simp
  have kept: "renderer (snd (run V (CallInitialize appName platform # cs) w)) \<noteq> None"
    if "\<not> initRenderer w"
    using final r1 [OF that] r2 [OF that] by auto
  have later: "Initialize V appName' platform' w' =
        (Inr e, w'\<lparr>renderer := Some (r\<lparr>backend := b'\<rparr>),
                   calls := calls w' @ [BackendInitialize appName']\<rparr>)"
    if "initRenderer w'" and "renderer w' = Some r"
      and "backend_Initialize V appName' (backend r) = (e, b')"
    using that by (simp add: Initialize_def renderer_backend_def)
  show ?thesis
    using run_eq once built kept later by blast
qed

theorem later_platform_has_no_effect_witness:
  "run (stub_backend None None None None)
     [CallInitialize ''app'' 7, CallInitialize ''app'' 1,
      CallDrawFrame (Some \<lparr>RenderPacket.DeltaTime = 16\<rparr>)] world0 =
   run (stub_backend None None None None)
     [CallInitialize ''app'' 7, CallInitialize ''app'' 2,
      CallDrawFrame (Some \<lparr>RenderPacket.DeltaTime = 16\<rparr>)] world0 \<and>
   constructions (calls (snd (run (stub_backend None None None None)
     [CallInitialize ''app'' 7, CallInitialize ''app'' 1,
      CallDrawFrame (Some \<lparr>RenderPacket.DeltaTime = 16\<rparr>)] world0))) = [7] \<and>
   renderer (snd (Initialize (stub_backend None None None None) ''app'' 7 world0))
     = Some \<lparr>backend = 8\<rparr> \<and>
   renderer (snd (run (stub_backend None None None None)
     [CallInitialize ''app'' 7, CallInitialize ''app'' 1,
      CallDrawFrame (Some \<lparr>RenderPacket.DeltaTime = 16\<rparr>)] world0)) \<noteq> None \<and>
   Initialize (stub_backend None None None None) ''app'' 2 ready =
     (Inr None,
      \<lparr>initRenderer = True, renderer = Some \<lparr>backend = 9\<rparr>,
       calls = [VulkanNew 7, BackendInitialize ''app'', BackendInitialize ''app'']\<rparr>)"
proof -
  have h: "map erase_platform
             [CallInitialize ''app'' (1::nat), CallDrawFrame (Some \<lparr>RenderPacket.DeltaTime = 16\<rparr>)]
         = map erase_platform
             [CallInitialize ''app'' (2::nat), CallDrawFrame (Some \<lparr>RenderPacket.DeltaTime = 16\<rparr>)]"
    by (simp add: erase_platform_def)
  have n: "\<not> initRenderer (world0 :: (nat, nat) world)"
    by (simp add: world0_def)
  have c: "constructions (calls (world0 :: (nat, nat) world)) = []"
    by (simp add: world0_def)
  have l: "initRenderer ready \<and> renderer ready = Some \<lparr>backend = 8\<rparr> \<and>
           backend_Initialize (stub_backend None None None None) ''app''
             (backend \<lparr>backend = 8::nat\<rparr>) = (None, 9)"
    by (simp add: ready_def stub_backend_def)
  have b: "snd (backend_Initialize (stub_backend None None None None) ''app''
             (vulkan_New (stub_backend None None None None) 7)) = 8"
    by (simp add: stub_backend_def)
  note t = later_platform_has_no_effect
        [where cs = "[CallInitialize ''app'' 1, CallDrawFrame (Some \<lparr>RenderPacket.DeltaTime = 16\<rparr>)]"
           and cs' = "[CallInitialize ''app'' 2, CallDrawFrame (Some \<lparr>RenderPacket.DeltaTime = 16\<rparr>)]"
           and V = "stub_backend None None None None" and appName = "''app''"
           and platform = 7 and w = world0
           and w' = ready and r = "\<lparr>backend = 8\<rparr>" and appName' = "''app''"
           and e = None and b' = 9 and platform' = 2]
  have e: "run (stub_backend None None None None)
     [CallInitialize ''app'' 7, CallInitialize ''app'' 1,
      CallDrawFrame (Some \<lparr>RenderPacket.DeltaTime = 16\<rparr>)] world0 =
   run (stub_backend None None None None)
     [CallInitialize ''app'' 7, CallInitialize ''app'' 2,
      CallDrawFrame (Some \<lparr>RenderPacket.DeltaTime = 16\<rparr>)] world0"
    using t h by blast
  have k: "constructions (calls (snd (run (stub_backend None None None None)
     [CallInitialize ''app'' 7, CallInitialize ''app'' 1,
      CallDrawFrame (Some \<lparr>RenderPacket.DeltaTime = 16\<rparr>)] world0)))
     = constructions (calls (world0 :: (nat, nat) world)) @ [7]"
    using t n by blast
  have k': "constructions (calls (snd (run (stub_backend None None None None)
     [CallInitialize ''app'' 7, CallInitialize ''app'' 1,
      CallDrawFrame (Some \<lparr>RenderPacket.DeltaTime = 16\<rparr>)] world0))) = [7]"
    using k by (simp only: c append_Nil)
  have f: "renderer (snd (Initialize (stub_backend None None None None) ''app'' 7 world0))
     = Some \<lparr>backend = snd (backend_Initialize (stub_backend None None None None) ''app''
             (vulkan_New (stub_backend None None None None) 7))\<rparr>"
    using t n by blast
  have f': "renderer (snd (Initialize (stub_backend None None None None) ''app'' 7 world0))
     = Some \<lparr>backend = 8\<rparr>"
    using f by (simp only: b)
  have g: "renderer (snd (run (stub_backend None None None None)
     [CallInitialize ''app'' 7, CallInitialize ''app'' 1,
      CallDrawFrame (Some \<lparr>RenderPacket.DeltaTime = 16\<rparr>)] world0)) \<noteq> None"
    using t n by blast
  have m: "Initialize (stub_backend None None None None) ''app'' 2 ready =
     (Inr None, ready\<lparr>renderer := Some (\<lparr>backend = 8\<rparr>\<lparr>backend := 9\<rparr>),
                     calls := calls ready @ [BackendInitialize ''app'']\<rparr>)"
    using t l by blast
  have m': "Initialize (stub_backend None None None None) ''app'' 2 ready =
     (Inr None,
      \<lparr>initRenderer = True, renderer = Some \<lparr>backend = 9\<rparr>,
       calls = [VulkanNew 7, BackendInitialize ''app'', BackendInitialize ''app'']\<rparr>)"
    unfolding m by (simp add: ready_def)
  show ?thesis
    using e k' f' g m' by (intro conjI)
qed

section \<open>Resizing\<close>

text \<open>
  What a resize does. The \<^verbatim>\<open>Renderer\<close> struct has one field, the backend, and
  the package keeps no list of views, so a state of this code never has an
  active view. On an initialized renderer every call of
  \<^verbatim>\<open>OnResize(width, height)\<close> calls the backend's \<^verbatim>\<open>Resized\<close> exactly once, with
  the same dimensions, returns what the backend returns and makes no other
  call.
\<close>

theorem OnResize_forwards_to_backend:
  assumes "renderer w = Some r"
    and "backend_Resized V width height (backend r) = (e, b')"
  shows "OnResize V width height w =
           (Inr e, w\<lparr>renderer := Some (r\<lparr>backend := b'\<rparr>),
                    calls := calls w @ [BackendResized width height]\<rparr>)"
  using assms by (simp add: OnResize_def renderer_backend_def)

theorem OnResize_forwards_to_backend_witness:
  "OnResize (stub_backend None None None None) 1024 768 ready =
     (Inr None,
      \<lparr>initRenderer = True, renderer = Some \<lparr>backend = 9\<rparr>,
       calls = [VulkanNew 7, BackendInitialize ''app'', BackendResized 1024 768]\<rparr>)"
proof -
  have r: "renderer ready = Some \<lparr>backend = 8\<rparr>"
    by (simp add: ready_def)
  have b: "backend_Resized (stub_backend None None None None) 1024 768
             (backend \<lparr>backend = 8::nat\<rparr>) = (None, 9)"
    by (simp add: stub_backend_def)
  show ?thesis
    using OnResize_forwards_to_backend [OF r b] by (simp add: ready_def)
qed

section \<open>Shutting down\<close>

text \<open>
  C8, as stated: a second \<^verbatim>\<open>Shutdown\<close> after a successful one is a no-op, and a
  \<^verbatim>\<open>Shutdown\<close> destroys the views before the backend. On an initialized
  renderer with a backend that accepts every call, the first \<^verbatim>\<open>Shutdown\<close>
  succeeds, and the second one calls the backend's \<^verbatim>\<open>Shutdow\<close> again and
  changes the backend's state; neither invokes the \<^verbatim>\<open>OnDestroy\<close> of a view.
\<close>

theorem Shutdown_twice_shuts_backend_twice:
  "Shutdown (stub_backend None None None None) ready =
     (Inr None,
      \<lparr>initRenderer = True, renderer = Some \<lparr>backend = 9\<rparr>,
       calls = [VulkanNew 7, BackendInitialize ''app'', BackendShutdow]\<rparr>) \<and>
   Shutdown (stub_backend None None None None)
     (snd (Shutdown (stub_backend None None None None) ready)) =
     (Inr None,
      \<lparr>initRenderer = True, renderer = Some \<lparr>backend = 10\<rparr>,
       calls = [VulkanNew 7, BackendInitialize ''app'', BackendShutdow, BackendShutdow]\<rparr>) \<and>
   count_list
     (calls (snd (Shutdown (stub_backend None None None None)
        (snd (Shutdown (stub_backend None None None None) ready)))))
     (ViewOnDestroy (ID skybox_view)) = 0"
  by (simp add: Shutdown_def renderer_backend_def stub_backend_def ready_def)

text \<open>
  C8, amended: every \<^verbatim>\<open>Shutdown\<close> on an initialized renderer calls the backend's
  \<^verbatim>\<open>Shutdow\<close> exactly once and returns what the backend returns, makes no other
  call (no view is destroyed) and leaves the \<^verbatim>\<open>renderer\<close> singleton set; a
  second \<^verbatim>\<open>Shutdown\<close> therefore reaches the backend again, and whether it is a
  no-op is up to the backend.
\<close>

theorem Shutdown_forwards_to_backend:
  assumes "renderer w = Some r"
    and "backend_Shutdow V (backend r) = (e1, b1)"
    and "backend_Shutdow V b1 = (e2, b2)"
  shows "Shutdown V w =
           (Inr e1, w\<lparr>renderer := Some (r\<lparr>backend := b1\<rparr>),
                     calls := calls w @ [BackendShutdow]\<rparr>) \<and>
         Shutdown V (snd (Shutdown V w)) =
           (Inr e2, w\<lparr>renderer := Some (r\<lparr>backend := b2\<rparr>),
                     calls := calls w @ [BackendShutdow, BackendShutdow]\<rparr>)"
  using assms by (simp add: Shutdown_def renderer_backend_def)

theorem Shutdown_forwards_to_backend_witness:
  "Shutdown (stub_backend None (Some (Error ''device busy'')) None None) ready =
     (Inr (Some (Error ''device busy'')),
      \<lparr>initRenderer = True, renderer = Some \<lparr>backend = 9\<rparr>,
       calls = [VulkanNew 7, BackendInitialize ''app'', BackendShutdow]\<rparr>) \<and>
   Shutdown (stub_backend None (Some (Error ''device busy'')) None None)
     (snd (Shutdown (stub_backend None (Some (Error ''device busy'')) None None) ready)) =
     (Inr (Some (Error ''device busy'')),
      \<lparr>initRenderer = True, renderer = Some \<lparr>backend = 10\<rparr>,
       calls = [VulkanNew 7, BackendInitialize ''app'', BackendShutdow, BackendShutdow]\<rparr>)"
proof -
  have r: "renderer ready = Some \<lparr>backend = 8\<rparr>"
    by (simp add: ready_def)
  have b1: "backend_Shutdow (stub_backend None (Some (Error ''device busy'')) None None)
              (backend \<lparr>backend = 8::nat\<rparr>) = (Some (Error ''device busy''), 9)"
    by (simp add: stub_backend_def)
  have b2: "backend_Shutdow (stub_backend None (Some (Error ''device busy'')) None None) 9
              = (Some (Error ''device busy''), 10)"
    by (simp add: stub_backend_def)
  show ?thesis
    using Shutdown_forwards_to_backend [OF r b1 b2, THEN conjunct1]
          Shutdown_forwards_to_backend [OF r b1 b2, THEN conjunct2]
    by (simp add: ready_def)
qed

section \<open>Calls before initialization\<close>

text \<open>
  C9. While the \<^verbatim>\<open>renderer\<close> singleton is \<^verbatim>\<open>nil\<close>, as it is until the first
  \<^verbatim>\<open>Initialize\<close> has run, each of \<^verbatim>\<open>Shutdown\<close>, \<^verbatim>\<open>BeginFrame\<close>, \<^verbatim>\<open>EndFrame\<close>,
  \<^verbatim>\<open>OnResize\<close> and \<^verbatim>\<open>DrawFrame\<close> panics with a nil pointer dereference instead
  of returning an error, and has called nothing before it does.
\<close>

theorem nil_renderer_panics:
  assumes "renderer w = None"
  shows "Shutdown V w = (Inl NilPointerDereference, w) \<and>
    BeginFrame V deltaTime w = (Inl NilPointerDereference, w) \<and>
    EndFrame V deltaTime w = (Inl NilPointerDereference, w) \<and>
    OnResize V width height w = (Inl NilPointerDereference, w) \<and>
    DrawFrame V renderPacket w = (Inl NilPointerDereference, w)"
  using assms
  by (simp add: Shutdown_def BeginFrame_def EndFrame_def OnResize_def DrawFrame_def
      renderer_backend_None split: option.splits)

theorem nil_renderer_panics_witness:
  "Shutdown (stub_backend None None None None) world0 = (Inl NilPointerDereference, world0) \<and>
   BeginFrame (stub_backend None None None None) 16 world0 = (Inl NilPointerDereference, world0) \<and>
   EndFrame (stub_backend None None None None) 16 world0 = (Inl NilPointerDereference, world0) \<and>
   OnResize (stub_backend None None None None) 800 600 world0
     = (Inl NilPointerDereference, world0) \<and>
   DrawFrame (stub_backend None None None None) (Some \<lparr>RenderPacket.DeltaTime = 16\<rparr>) world0
     = (Inl NilPointerDereference, world0)"
proof -
  have n: "renderer (world0 :: (nat, nat) world) = None"
    by (simp add: world0_def)
  show ?thesis
    using nil_renderer_panics
            [OF n, where V = "stub_backend None None None None" and deltaTime = 16
               and width = 800 and height = 600
               and renderPacket = "Some \<lparr>RenderPacket.DeltaTime = 16\<rparr>"]
    by simp
qed

section \<open>Clear flags\<close>

text \<open>
  C7. The clear flags are meant to be independent bits that can be OR-ed:
  the none flag is zero, and distinct non-empty subsets of colour, depth and
  stencil should combine to distinct values. In the code the none flag is zero,
  but the stencil flag has the value \<^verbatim>\<open>0x3\<close>, which is the OR of the colour and
  the depth flag: the subset with stencil alone and the subset with colour and
  depth combine to the same value.
\<close>

theorem stencil_flag_is_colour_or_depth:
  "RENDERPASS_CLEAR_NONE_FLAG = 0 \<and>
   RENDERPASS_CLEAR_COLOUR_BUFFER_FLAG OR RENDERPASS_CLEAR_DEPTH_BUFFER_FLAG
     = RENDERPASS_CLEAR_STENCIL_BUFFER_FLAG"
  by (simp add: RENDERPASS_CLEAR_NONE_FLAG_def RENDERPASS_CLEAR_COLOUR_BUFFER_FLAG_def
      RENDERPASS_CLEAR_DEPTH_BUFFER_FLAG_def RENDERPASS_CLEAR_STENCIL_BUFFER_FLAG_def)

end
